theory Spec2Isabelle
  imports Main
begin

section \<open>The import script \<open>run_mongo_import.sh\<close>\<close>

text \<open>
  The pipeline of this repository is the shell script \<open>run_mongo_import.sh\<close> (the second
  document of \<open>scripts/README.md\<close>). It is a straight-line program with early exits. The
  model below follows it statement by statement: every command with an effect appends an
  event to a trace and updates the part of the file system or of the tracking store it
  touches; every \<open>exit\<close> is a returned exit code.

  The Python program \<open>mongo_to_listmonk.py\<close>, the ListMonk server and the clock are outside
  the script. What they answer is collected in a record \<open>world\<close>, over which every theorem
  quantifies. Line numbers are those of \<open>scripts/README.md\<close>.

  Not modelled: the two \<open>mkdir -p\<close> of lines 134 and 135, and the answer of Telegram (the
  script discards it; an event \<open>Notify\<close> is the attempt to send). The values that lines 190
  to 194 cut out of \<open>config.json\<close> are taken as read.
\<close>

subsection \<open>Text helpers of the shell\<close>

text \<open>Prefix test, and the pattern \<open>*"text"*\<close> of \<open>[[ ... == ... ]]\<close>: an occurrence anywhere.\<close>

fun starts_with :: "string \<Rightarrow> string \<Rightarrow> bool" where
  "starts_with [] s = True"
| "starts_with (p # ps) [] = False"
| "starts_with (p # ps) (c # cs) = (p = c \<and> starts_with ps cs)"

fun glob_contains :: "string \<Rightarrow> string \<Rightarrow> bool" where
  "glob_contains p [] = (p = [])"
| "glob_contains p (c # cs) = (starts_with p (c # cs) \<or> glob_contains p cs)"

definition nl :: string where
  "nl = [CHR 0x0A]"

definition is_digit :: "char \<Rightarrow> bool" where
  "is_digit c = (c \<in> set ''0123456789'')"

text \<open>
  \<open>grep -o "Found [0-9]* new users"\<close>: every match, one per line. A match holds the letter
  \<open>F\<close> only at its start, so no match begins inside another one and looking at every
  position finds the same matches as grep's scan from left to right.
\<close>

definition match_found :: "string \<Rightarrow> string option" where
  "match_found s =
     (if starts_with ''Found '' s
      then (if starts_with '' new users'' (dropWhile is_digit (drop 6 s))
            then Some (''Found '' @ takeWhile is_digit (drop 6 s) @ '' new users'')
            else None)
      else None)"

fun grep_found :: "string \<Rightarrow> string list" where
  "grep_found [] = []"
| "grep_found (c # cs) =
     (case match_found (c # cs) of Some m \<Rightarrow> [m] | None \<Rightarrow> []) @ grep_found cs"

text \<open>\<open>awk '{print $2}'\<close>: the second field of a line, fields being separated by blanks.\<close>

fun split_blank :: "string \<Rightarrow> string list" where
  "split_blank [] = [[]]"
| "split_blank (c # cs) =
     (if c = CHR '' '' then [] # split_blank cs
      else (case split_blank cs of [] \<Rightarrow> [[c]] | f # fs \<Rightarrow> (c # f) # fs))"

definition awk_print_2 :: "string \<Rightarrow> string" where
  "awk_print_2 line =
     (case filter (\<lambda>f. f \<noteq> []) (split_blank line) of
        f1 # f2 # fs \<Rightarrow> f2
      | _ \<Rightarrow> [])"

fun join_lines :: "string list \<Rightarrow> string" where
  "join_lines [] = []"
| "join_lines [l] = l"
| "join_lines (l # ls) = l @ nl @ join_lines ls"

text \<open>
  \<open>echo "$text"\<close> with one argument. Bash takes the argument as options when it is a
  \<open>-\<close> followed by one or more of the letters \<open>n\<close>, \<open>e\<close> and \<open>E\<close>: then the text is not
  printed, and with an \<open>n\<close> among the letters not even the newline. \<open>echo_prints\<close> is the
  line that is printed, if any; \<open>echo_text\<close> is what a pipe reads from it.
\<close>

definition echo_option :: "string \<Rightarrow> bool" where
  "echo_option text =
     (case text of
        [] \<Rightarrow> False
      | c # r \<Rightarrow> c = CHR ''-'' \<and> r \<noteq> [] \<and> list_all (\<lambda>x. x \<in> set ''neE'') r)"

definition echo_prints :: "string \<Rightarrow> string option" where
  "echo_prints text =
     (if echo_option text then (if CHR ''n'' \<in> set text then None else Some [])
      else Some text)"

definition echo_text :: "string \<Rightarrow> string" where
  "echo_text text = (case echo_prints text of None \<Rightarrow> [] | Some t \<Rightarrow> t)"

text \<open>
  Lines 162 to 165: \<open>USER_COUNT\<close> is the text the pipeline prints (the command substitution
  drops the final newline), and \<open>0\<close> when that text is empty.
\<close>

definition USER_COUNT :: "string \<Rightarrow> string" where
  "USER_COUNT extract_output =
     (if join_lines (map awk_print_2 (grep_found (echo_text extract_output))) = [] then ''0''
      else join_lines (map awk_print_2 (grep_found (echo_text extract_output))))"

text \<open>
  The integer tests of \<open>[ ... ]\<close>. An operand that is not a number makes the test fail
  with status 2, so the condition is false. \<open>USER_COUNT\<close> holds digits, the word \<open>new\<close>
  and newlines only; it is a number when it is one run of digits that fits 64 signed bits.
\<close>

definition digit_value :: "char \<Rightarrow> nat" where
  "digit_value c = of_char c - 48"

definition decimal :: "string \<Rightarrow> nat" where
  "decimal s = foldl (\<lambda>n c. 10 * n + digit_value c) 0 s"

definition legal_number :: "string \<Rightarrow> nat option" where
  "legal_number s =
     (if s \<noteq> [] \<and> list_all is_digit s \<and> decimal s < 9223372036854775808
      then Some (decimal s) else None)"

definition test_gt :: "string \<Rightarrow> nat \<Rightarrow> bool" where
  "test_gt s n = (case legal_number s of Some v \<Rightarrow> n < v | None \<Rightarrow> False)"

definition test_eq :: "string \<Rightarrow> nat \<Rightarrow> bool" where
  "test_eq s n = (case legal_number s of Some v \<Rightarrow> v = n | None \<Rightarrow> False)"

subsection \<open>The outside world and the state\<close>

type_synonym timestamp = nat

text \<open>
  What the script reads from outside, in the order it reads it. \<open>EXTRACT_STATUS\<close>,
  \<open>upload_status\<close> and \<open>update_status\<close> are exit statuses the script never tests; they are
  fields so that the theorems range over them. \<open>update_result\<close> is what
  \<open>mongo_to_listmonk.py --update-timestamp\<close> (not part of the sources at hand) writes to
  the tracking store: \<open>Some t\<close> when it stores \<open>t\<close>, \<open>None\<close> when it fails and stores
  nothing. \<open>now\<close> is the reading of \<open>date\<close>; the model reads the clock once per run.
\<close>

record world =
  env_file :: bool
  SCRIPT_DIR :: string
  BOT_TOKEN :: string
  GC_CHAT_ID :: string
  TOPIC_ID :: string
  now :: string
  EXTRACT_OUTPUT :: string
  EXTRACT_STATUS :: nat
  csv_file :: bool
  LISTMONK_URL :: string
  LISTMONK_USERNAME :: string
  LISTMONK_PASSWORD :: string
  LISTMONK_LIST_ID :: string
  LISTMONK_LIST_NAME :: string
  login_output :: string
  login_status :: nat
  login_jar :: "string option"
  IMPORT_RESPONSE :: string
  upload_status :: nat
  update_output :: string
  update_status :: nat
  update_result :: "timestamp option"

record log_entry =
  entry_name :: string
  regular :: bool
  age_days :: nat

datatype event =
    is_Echo: Echo string
  | is_Log: Log string string
  | is_Tee: Tee string
  | is_Append: Append string
  | is_Notify: Notify string
  | is_Extract: Extract
  | is_RmCookieJar: RmCookieJar
  | is_Login: Login string string string
  | is_Upload: Upload "string option" string string
  | is_UpdateTimestamp: UpdateTimestamp
  | is_FindDelete: FindDelete

text \<open>
  \<open>checkpoint\<close> is the last-sync timestamp of the tracking collection, \<open>cookie_jar\<close> the
  file \<open>temp/listmonk_cookies.txt\<close>, \<open>log_dir\<close> the files that earlier runs left in the log
  directory, \<open>log_file\<close> what this run has appended to its own log file.
\<close>

record state =
  checkpoint :: timestamp
  cookie_jar :: "string option"
  log_dir :: "log_entry list"
  log_file :: "string list"
  trace :: "event list"

definition start :: "timestamp \<Rightarrow> string option \<Rightarrow> log_entry list \<Rightarrow> state" where
  "start c jar dir =
     \<lparr>checkpoint = c, cookie_jar = jar, log_dir = dir, log_file = [], trace = []\<rparr>"

fun seq :: "(state \<Rightarrow> state) list \<Rightarrow> state \<Rightarrow> state" where
  "seq [] s = s"
| "seq (f # fs) s = seq fs (f s)"

subsection \<open>The commands of the script\<close>

definition emit :: "event \<Rightarrow> state \<Rightarrow> state" where
  "emit e s = s\<lparr>trace := trace s @ [e]\<rparr>"

definition append_log :: "string \<Rightarrow> state \<Rightarrow> state" where
  "append_log text s = s\<lparr>log_file := log_file s @ [text]\<rparr>"

definition echo :: "string \<Rightarrow> state \<Rightarrow> state" where
  "echo text = emit (Echo text)"

definition tee_a :: "string \<Rightarrow> state \<Rightarrow> state" where
  "tee_a text = seq [append_log text, emit (Tee text)]"

text \<open>\<open>echo "$text" | tee -a "${LOG_FILE}"\<close> and \<open>echo "$text" >> "${LOG_FILE}"\<close>.\<close>

definition echo_tee_a :: "string \<Rightarrow> state \<Rightarrow> state" where
  "echo_tee_a text s = (case echo_prints text of None \<Rightarrow> s | Some t \<Rightarrow> tee_a t s)"

definition echo_append :: "string \<Rightarrow> state \<Rightarrow> state" where
  "echo_append text s =
     (case echo_prints text of
        None \<Rightarrow> s
      | Some t \<Rightarrow> seq [append_log t, emit (Append t)] s)"

text \<open>Lines 138 to 140.\<close>

definition log :: "world \<Rightarrow> string \<Rightarrow> state \<Rightarrow> state" where
  "log w msg =
     seq [append_log (''['' @ now w @ ''] '' @ msg), emit (Log (now w) msg)]"

text \<open>Lines 143 to 150.\<close>

definition send_telegram_notification :: "string \<Rightarrow> state \<Rightarrow> state" where
  "send_telegram_notification message = emit (Notify message)"

text \<open>Lines 157 to 159.\<close>

definition extract_users :: "world \<Rightarrow> state \<Rightarrow> state" where
  "extract_users w = seq [emit Extract, echo_tee_a (EXTRACT_OUTPUT w)]"

text \<open>Lines 198 to 203.\<close>

definition rm_cookie_jar :: "state \<Rightarrow> state" where
  "rm_cookie_jar s = emit RmCookieJar (s\<lparr>cookie_jar := None\<rparr>)"

definition curl_login :: "world \<Rightarrow> state \<Rightarrow> state" where
  "curl_login w s =
     seq [emit (Login (LISTMONK_URL w) (LISTMONK_USERNAME w) (LISTMONK_PASSWORD w)),
          tee_a (login_output w)]
       (s\<lparr>cookie_jar := login_jar w\<rparr>)"

text \<open>Lines 217 to 224.\<close>

definition curl_import :: "world \<Rightarrow> state \<Rightarrow> state" where
  "curl_import w s =
     seq [emit (Upload (cookie_jar s) (LISTMONK_URL w) (LISTMONK_LIST_ID w)),
          echo_append (IMPORT_RESPONSE w)] s"

text \<open>Line 240.\<close>

definition update_timestamp :: "world \<Rightarrow> state \<Rightarrow> state" where
  "update_timestamp w s =
     seq [emit UpdateTimestamp, tee_a (update_output w)]
       (s\<lparr>checkpoint := (case update_result w of None \<Rightarrow> checkpoint s | Some t \<Rightarrow> t)\<rparr>)"

text \<open>
  Line 249: \<open>find -name "mongo_import_*.log" -type f -mtime +7 -delete\<close>. \<open>-mtime +7\<close> holds
  for a file whose age in whole days is more than 7.
\<close>

definition name_matches :: "string \<Rightarrow> bool" where
  "name_matches n =
     (starts_with ''mongo_import_'' n \<and> starts_with (rev ''.log'') (rev (drop 13 n)))"

definition find_selects :: "log_entry \<Rightarrow> bool" where
  "find_selects e = (name_matches (entry_name e) \<and> regular e \<and> 7 < age_days e)"

definition find_delete :: "state \<Rightarrow> state" where
  "find_delete s =
     emit FindDelete (s\<lparr>log_dir := filter (\<lambda>e. \<not> find_selects e) (log_dir s)\<rparr>)"

subsection \<open>The notifications\<close>

definition cross_mark :: string where
  "cross_mark = [CHR 0xE2, CHR 0x9D, CHR 0x8C]"

definition info_mark :: string where
  "info_mark = [CHR 0xE2, CHR 0x84, CHR 0xB9, CHR 0xEF, CHR 0xB8, CHR 0x8F]"

definition check_mark :: string where
  "check_mark = [CHR 0xE2, CHR 0x9C, CHR 0x85]"

definition time_line :: "world \<Rightarrow> string" where
  "time_line w = ''Time: '' @ now w"

text \<open>Lines 171 to 173.\<close>

definition failed_text :: "world \<Rightarrow> string \<Rightarrow> string" where
  "failed_text w error_msg =
     cross_mark @ '' <b>ListMonk Import Failed</b>'' @ nl @ error_msg @ nl @ time_line w"

text \<open>Lines 208 to 211 and 230 to 233.\<close>

definition failed_found_text :: "world \<Rightarrow> string \<Rightarrow> string" where
  "failed_found_text w error_msg =
     cross_mark @ '' <b>ListMonk Import Failed</b>'' @ nl @ error_msg @ nl
       @ ''Users found: '' @ USER_COUNT (EXTRACT_OUTPUT w) @ nl @ time_line w"

text \<open>Lines 180 to 182.\<close>

definition no_new_text :: "world \<Rightarrow> string" where
  "no_new_text w =
     info_mark @ '' <b>ListMonk Import Summary</b>'' @ nl
       @ ''No new users found since last import.'' @ nl @ time_line w"

text \<open>Lines 243 to 245.\<close>

definition success_text :: "world \<Rightarrow> string" where
  "success_text w =
     check_mark @ '' <b>ListMonk Import Successful</b>'' @ nl
       @ ''Successfully imported '' @ USER_COUNT (EXTRACT_OUTPUT w) @ '' new users to ''
       @ [CHR 0x22] @ LISTMONK_LIST_NAME w @ [CHR 0x22] @ nl @ time_line w"

subsection \<open>The guards of the script\<close>

text \<open>The failure of the test of line 115, and the test of line 128.\<close>

definition env_missing :: "world \<Rightarrow> bool" where
  "env_missing w = (\<not> env_file w)"

definition vars_missing :: "world \<Rightarrow> bool" where
  "vars_missing w = (BOT_TOKEN w = [] \<or> GC_CHAT_ID w = [] \<or> TOPIC_ID w = [])"

text \<open>Lines 168, 178, 205 and 227.\<close>

definition csv_missing :: "world \<Rightarrow> bool" where
  "csv_missing w = (\<not> csv_file w \<and> test_gt (USER_COUNT (EXTRACT_OUTPUT w)) 0)"

definition no_new_users :: "world \<Rightarrow> bool" where
  "no_new_users w = test_eq (USER_COUNT (EXTRACT_OUTPUT w)) 0"

definition login_failed :: "world \<Rightarrow> bool" where
  "login_failed w = (login_status w \<noteq> 0)"

definition import_failed :: "world \<Rightarrow> bool" where
  "import_failed w = glob_contains ''error'' (IMPORT_RESPONSE w)"

subsection \<open>The script\<close>

text \<open>Lines 226 to 252: the check of the import response, and the end of the script.\<close>

definition check_import :: "world \<Rightarrow> state \<Rightarrow> nat \<times> state" where
  "check_import w s =
     (if import_failed w
      then (1, seq [log w ''Error: Import failed'',
                    send_telegram_notification (failed_found_text w ''Error: Import failed'')] s)
      else (0, seq [log w ''Import completed successfully'',
                    log w ''Updating last sync timestamp'',
                    update_timestamp w,
                    send_telegram_notification (success_text w),
                    find_delete,
                    log w ''MongoDB to ListMonk import process completed''] s))"

text \<open>Lines 186 to 224: authentication and upload.\<close>

definition import_users :: "world \<Rightarrow> state \<Rightarrow> nat \<times> state" where
  "import_users w s =
     (let s1 = seq [log w ''Importing users into ListMonk'',
                    log w ''Authenticating with ListMonk'',
                    rm_cookie_jar,
                    curl_login w] s
      in if login_failed w
         then (1, seq [log w ''Error: Failed to authenticate with ListMonk'',
                       send_telegram_notification
                         (failed_found_text w ''Error: Failed to authenticate with ListMonk'')] s1)
         else check_import w
                (seq [log w ''Uploading CSV file to ListMonk'',
                      curl_import w] s1))"

text \<open>Lines 152 to 184: extraction, the check of the CSV file, the case of no new user.\<close>

definition extract_and_import :: "world \<Rightarrow> state \<Rightarrow> nat \<times> state" where
  "extract_and_import w s =
     (let s1 = seq [log w ''Starting MongoDB to ListMonk import process'',
                    log w ''Extracting users from MongoDB'',
                    extract_users w] s
      in if csv_missing w
         then (1, seq [log w ''Error: CSV file was not created. Aborting import.'',
                       send_telegram_notification
                         (failed_text w ''Error: CSV file was not created. Aborting import.'')] s1)
         else if no_new_users w
         then (0, seq [log w ''No new users found. Nothing to import.'',
                       send_telegram_notification (no_new_text w)] s1)
         else import_users w s1)"

text \<open>Lines 114 to 131, then the rest.\<close>

definition run_mongo_import :: "world \<Rightarrow> state \<Rightarrow> nat \<times> state" where
  "run_mongo_import w s =
     (if env_missing w
      then (1, echo (''Error: .env file not found in '' @ SCRIPT_DIR w) s)
      else if vars_missing w
      then (1, echo ''Error: Required environment variables not set. Please check your .env file.'' s)
      else extract_and_import w s)"

subsection \<open>Path conditions and observations\<close>

text \<open>
  The guards are tested in a fixed order, so the lines a run reaches are fixed by them:
  \<open>config_ok\<close> leads past line 131, \<open>reaches_login\<close> to line 186, \<open>reaches_upload\<close> to
  line 215 and \<open>import_confirmed\<close> to the \<open>else\<close> branch of line 235.
\<close>

definition config_ok :: "world \<Rightarrow> bool" where
  "config_ok w = (\<not> env_missing w \<and> \<not> vars_missing w)"

definition reaches_login :: "world \<Rightarrow> bool" where
  "reaches_login w = (config_ok w \<and> \<not> csv_missing w \<and> \<not> no_new_users w)"

definition reaches_upload :: "world \<Rightarrow> bool" where
  "reaches_upload w = (reaches_login w \<and> \<not> login_failed w)"

definition import_confirmed :: "world \<Rightarrow> bool" where
  "import_confirmed w = (reaches_upload w \<and> \<not> import_failed w)"

definition exit_code :: "world \<Rightarrow> state \<Rightarrow> nat" where
  "exit_code w s = fst (run_mongo_import w s)"

definition final :: "world \<Rightarrow> state \<Rightarrow> state" where
  "final w s = snd (run_mongo_import w s)"

text \<open>The event that an \<open>echo\<close> into the log leaves in the trace, if it prints.\<close>

definition echo_events :: "(string \<Rightarrow> event) \<Rightarrow> string \<Rightarrow> event list" where
  "echo_events k text = (case echo_prints text of None \<Rightarrow> [] | Some t \<Rightarrow> [k t])"

text \<open>The texts sent to Telegram, and the messages of the timestamped lines that report an error.\<close>

fun notifications :: "event list \<Rightarrow> string list" where
  "notifications [] = []"
| "notifications (Notify m # es) = m # notifications es"
| "notifications (e # es) = notifications es"

fun error_logs :: "event list \<Rightarrow> string list" where
  "error_logs [] = []"
| "error_logs (Log t m # es) =
     (if starts_with ''Error:'' m then m # error_logs es else error_logs es)"
| "error_logs (e # es) = error_logs es"

subsection \<open>Sample runs\<close>

text \<open>A night on which three users are imported.\<close>

definition nightly :: world where
  "nightly =
     \<lparr>env_file = True, SCRIPT_DIR = ''/root/CascadeProjects/listmonk/scripts'',
      BOT_TOKEN = ''123:abc'', GC_CHAT_ID = ''-100200'', TOPIC_ID = ''7'',
      now = ''2025-01-08 00:30:00'',
      EXTRACT_OUTPUT = ''Connected to MongoDB'' @ nl @ ''Found 3 new users'',
      EXTRACT_STATUS = 0, csv_file = True,
      LISTMONK_URL = ''http://localhost:9000'', LISTMONK_USERNAME = ''admin'',
      LISTMONK_PASSWORD = ''password'', LISTMONK_LIST_ID = ''1'', LISTMONK_LIST_NAME = '''',
      login_output = '''', login_status = 0, login_jar = Some ''session=4f1a'',
      IMPORT_RESPONSE = ''{\"data\":{\"status\":\"importing\"}}'', upload_status = 0,
      update_output = ''Updated last sync timestamp'', update_status = 0,
      update_result = Some 200\<rparr>"

text \<open>
  The extraction prints its count and then dies; the CSV file of an earlier night is still
  in the temp directory (the script never removes it).
\<close>

definition stale_csv :: world where
  "stale_csv =
     nightly\<lparr>EXTRACT_OUTPUT := ''Found 3 new users'' @ nl @ ''OSError: No space left on device'',
             EXTRACT_STATUS := 1\<rparr>"

text \<open>MongoDB cannot be reached: the extraction prints the exception and exits with status 1.\<close>

definition mongo_down :: world where
  "mongo_down =
     nightly\<lparr>EXTRACT_OUTPUT := ''ServerSelectionTimeoutError: localhost:27017: Connection refused'',
             EXTRACT_STATUS := 1, csv_file := False\<rparr>"

definition no_env :: world where
  "no_env = nightly\<lparr>env_file := False\<rparr>"

definition quiet_night :: world where
  "quiet_night = nightly\<lparr>EXTRACT_OUTPUT := ''Found 0 new users'', csv_file := False\<rparr>"

definition lost_csv :: world where
  "lost_csv = nightly\<lparr>csv_file := False\<rparr>"

definition bad_login :: world where
  "bad_login = nightly\<lparr>login_status := 7, login_jar := None\<rparr>"

definition rejected :: world where
  "rejected = nightly\<lparr>IMPORT_RESPONSE := ''{\"message\":\"error importing file\"}''\<rparr>"


text \<open>
  ListMonk rejects the password: the login command gets an answer, so it ends with exit
  status 0 (it is run without \<open>-f\<close>), and writes no session cookie.
\<close>

definition wrong_password :: world where
  "wrong_password =
     nightly\<lparr>LISTMONK_PASSWORD := ''wrong'', login_output := ''Invalid login'',
             login_jar := None, IMPORT_RESPONSE := ''{\"message\":\"invalid session\"}''\<rparr>"

text \<open>ListMonk goes down after the login: the upload command ends with status 7 and no answer.\<close>

definition upload_down :: world where
  "upload_down = nightly\<lparr>IMPORT_RESPONSE := [], upload_status := 7\<rparr>"

definition old_log :: log_entry where
  "old_log = \<lparr>entry_name = ''mongo_import_20241201_003000.log'', regular = True, age_days = 38\<rparr>"

section \<open>Properties\<close>

subsection \<open>The text helpers do what the shell does\<close>

lemmas command_defs =
  emit_def append_log_def echo_def tee_a_def echo_tee_a_def echo_append_def echo_events_def
  log_def send_telegram_notification_def
  extract_users_def rm_cookie_jar_def curl_login_def curl_import_def update_timestamp_def
  find_delete_def start_def

lemmas script_defs =
  final_def exit_code_def run_mongo_import_def extract_and_import_def import_users_def
  check_import_def Let_def

lemmas path_defs = config_ok_def reaches_login_def reaches_upload_def import_confirmed_def

lemmas guard_defs =
  env_missing_def vars_missing_def csv_missing_def no_new_users_def login_failed_def
  import_failed_def

lemmas count_defs =
  USER_COUNT_def echo_text_def echo_prints_def echo_option_def match_found_def awk_print_2_def is_digit_def nl_def test_gt_def test_eq_def
  legal_number_def decimal_def digit_value_def

lemma starts_with_iff: "starts_with p s \<longleftrightarrow> (\<exists>b. s = p @ b)"
  by (induction p s rule: starts_with.induct) auto

lemma glob_contains_iff: "glob_contains p s \<longleftrightarrow> (\<exists>a b. s = a @ p @ b)"
proof (induction s)
  case Nil
  then show ?case by auto
next
  case (Cons c cs)
  show ?case
  proof
    assume "glob_contains p (c # cs)"
    then consider "starts_with p (c # cs)" | "glob_contains p cs" by auto
    then show "\<exists>a b. c # cs = a @ p @ b"
    proof cases
      case 1
      then obtain b where "c # cs = p @ b" using starts_with_iff by blast
      then have "c # cs = [] @ p @ b" by simp
      then show ?thesis by blast
    next
      case 2
      then obtain a b where "cs = a @ p @ b" using Cons.IH by blast
      then have "c # cs = (c # a) @ p @ b" by simp
      then show ?thesis by blast
    qed
  next
    assume "\<exists>a b. c # cs = a @ p @ b"
    then obtain a b where ab: "c # cs = a @ p @ b" by blast
    show "glob_contains p (c # cs)"
    proof (cases a)
      case Nil
      then have "starts_with p (c # cs)" using ab starts_with_iff by auto
      then show ?thesis by simp
    next
      case (Cons x xs)
      then have "cs = xs @ p @ b" using ab by simp
      then have "glob_contains p cs" using Cons.IH by blast
      then show ?thesis by simp
    qed
  qed
qed

lemma test_eq_not_gt: "test_eq s 0 \<Longrightarrow> \<not> test_gt s 0"
  by (auto simp: test_eq_def test_gt_def split: option.splits)

lemma no_new_not_csv_missing: "no_new_users w \<Longrightarrow> \<not> csv_missing w"
  by (simp add: no_new_users_def csv_missing_def test_eq_not_gt)

subsection \<open>Observations on pieces of a trace\<close>

lemma notifications_append [simp]:
  "notifications (xs @ ys) = notifications xs @ notifications ys"
  by (induction xs rule: notifications.induct) simp_all

lemma error_logs_append [simp]:
  "error_logs (xs @ ys) = error_logs xs @ error_logs ys"
  by (induction xs rule: error_logs.induct) simp_all

lemma echo_events_Tee [simp]:
  "notifications (echo_events Tee t) = []"
  "error_logs (echo_events Tee t) = []"
  "UpdateTimestamp \<notin> set (echo_events Tee t)"
  "filter is_Login (echo_events Tee t) = []"
  "filter is_Upload (echo_events Tee t) = []"
  "filter is_FindDelete (echo_events Tee t) = []"
  by (simp_all add: echo_events_def split: option.splits)

lemma echo_events_Append [simp]:
  "notifications (echo_events Append t) = []"
  "error_logs (echo_events Append t) = []"
  "UpdateTimestamp \<notin> set (echo_events Append t)"
  "filter is_Login (echo_events Append t) = []"
  "filter is_Upload (echo_events Append t) = []"
  "filter is_FindDelete (echo_events Append t) = []"
  by (simp_all add: echo_events_def split: option.splits)

subsection \<open>What each path of the script does\<close>

lemma run_cases [case_names env vars csv no_new login rejected confirmed]:
  assumes "env_missing w \<Longrightarrow> P"
    and "\<not> env_missing w \<Longrightarrow> vars_missing w \<Longrightarrow> P"
    and "config_ok w \<Longrightarrow> csv_missing w \<Longrightarrow> P"
    and "config_ok w \<Longrightarrow> \<not> csv_missing w \<Longrightarrow> no_new_users w \<Longrightarrow> P"
    and "reaches_login w \<Longrightarrow> login_failed w \<Longrightarrow> P"
    and "reaches_upload w \<Longrightarrow> import_failed w \<Longrightarrow> P"
    and "import_confirmed w \<Longrightarrow> P"
  shows P
  using assms unfolding path_defs by blast

lemma path_env_missing:
  assumes "env_missing w"
  shows "run_mongo_import w (start c j d) =
    (1, \<lparr>checkpoint = c, cookie_jar = j, log_dir = d, log_file = [],
         trace = [Echo (''Error: .env file not found in '' @ SCRIPT_DIR w)]\<rparr>)"
  using assms by (simp add: run_mongo_import_def command_defs)

lemma path_vars_missing:
  assumes "\<not> env_missing w" and "vars_missing w"
  shows "run_mongo_import w (start c j d) =
    (1, \<lparr>checkpoint = c, cookie_jar = j, log_dir = d, log_file = [],
         trace = [Echo ''Error: Required environment variables not set. Please check your .env file.'']\<rparr>)"
  using assms by (simp add: run_mongo_import_def command_defs)

lemma path_csv_missing:
  assumes "config_ok w" and "csv_missing w"
  shows "exit_code w (start c j d) = 1"
    and "trace (final w (start c j d)) =
      [Log (now w) ''Starting MongoDB to ListMonk import process'',
       Log (now w) ''Extracting users from MongoDB'',
       Extract] @ echo_events Tee (EXTRACT_OUTPUT w) @
      [Log (now w) ''Error: CSV file was not created. Aborting import.'',
       Notify (failed_text w ''Error: CSV file was not created. Aborting import.'')]"
    and "checkpoint (final w (start c j d)) = c"
    and "cookie_jar (final w (start c j d)) = j"
    and "log_dir (final w (start c j d)) = d"
  using assms
  by (simp_all add: script_defs config_ok_def command_defs split: option.splits)

lemma path_no_new_users:
  assumes "config_ok w" and "\<not> csv_missing w" and "no_new_users w"
  shows "exit_code w (start c j d) = 0"
    and "trace (final w (start c j d)) =
      [Log (now w) ''Starting MongoDB to ListMonk import process'',
       Log (now w) ''Extracting users from MongoDB'',
       Extract] @ echo_events Tee (EXTRACT_OUTPUT w) @
      [Log (now w) ''No new users found. Nothing to import.'',
       Notify (no_new_text w)]"
    and "checkpoint (final w (start c j d)) = c"
    and "cookie_jar (final w (start c j d)) = j"
    and "log_dir (final w (start c j d)) = d"
  using assms
  by (simp_all add: script_defs config_ok_def command_defs split: option.splits)

lemma path_login_failed:
  assumes "reaches_login w" and "login_failed w"
  shows "exit_code w (start c j d) = 1"
    and "trace (final w (start c j d)) =
      [Log (now w) ''Starting MongoDB to ListMonk import process'',
       Log (now w) ''Extracting users from MongoDB'',
       Extract] @ echo_events Tee (EXTRACT_OUTPUT w) @
      [Log (now w) ''Importing users into ListMonk'',
       Log (now w) ''Authenticating with ListMonk'',
       RmCookieJar,
       Login (LISTMONK_URL w) (LISTMONK_USERNAME w) (LISTMONK_PASSWORD w),
       Tee (login_output w),
       Log (now w) ''Error: Failed to authenticate with ListMonk'',
       Notify (failed_found_text w ''Error: Failed to authenticate with ListMonk'')]"
    and "checkpoint (final w (start c j d)) = c"
    and "cookie_jar (final w (start c j d)) = login_jar w"
    and "log_dir (final w (start c j d)) = d"
  using assms
  by (simp_all add: script_defs config_ok_def reaches_login_def command_defs split: option.splits)

lemma path_import_failed:
  assumes "reaches_upload w" and "import_failed w"
  shows "exit_code w (start c j d) = 1"
    and "trace (final w (start c j d)) =
      [Log (now w) ''Starting MongoDB to ListMonk import process'',
       Log (now w) ''Extracting users from MongoDB'',
       Extract] @ echo_events Tee (EXTRACT_OUTPUT w) @
      [Log (now w) ''Importing users into ListMonk'',
       Log (now w) ''Authenticating with ListMonk'',
       RmCookieJar,
       Login (LISTMONK_URL w) (LISTMONK_USERNAME w) (LISTMONK_PASSWORD w),
       Tee (login_output w),
       Log (now w) ''Uploading CSV file to ListMonk'',
       Upload (login_jar w) (LISTMONK_URL w) (LISTMONK_LIST_ID w)] @
      echo_events Append (IMPORT_RESPONSE w) @
      [Log (now w) ''Error: Import failed'',
       Notify (failed_found_text w ''Error: Import failed'')]"
    and "checkpoint (final w (start c j d)) = c"
    and "cookie_jar (final w (start c j d)) = login_jar w"
    and "log_dir (final w (start c j d)) = d"
  using assms
  by (simp_all add: script_defs path_defs command_defs split: option.splits)

lemma path_import_confirmed:
  assumes "import_confirmed w"
  shows "exit_code w (start c j d) = 0"
    and "trace (final w (start c j d)) =
      [Log (now w) ''Starting MongoDB to ListMonk import process'',
       Log (now w) ''Extracting users from MongoDB'',
       Extract] @ echo_events Tee (EXTRACT_OUTPUT w) @
      [Log (now w) ''Importing users into ListMonk'',
       Log (now w) ''Authenticating with ListMonk'',
       RmCookieJar,
       Login (LISTMONK_URL w) (LISTMONK_USERNAME w) (LISTMONK_PASSWORD w),
       Tee (login_output w),
       Log (now w) ''Uploading CSV file to ListMonk'',
       Upload (login_jar w) (LISTMONK_URL w) (LISTMONK_LIST_ID w)] @
      echo_events Append (IMPORT_RESPONSE w) @
      [Log (now w) ''Import completed successfully'',
       Log (now w) ''Updating last sync timestamp'',
       UpdateTimestamp, Tee (update_output w),
       Notify (success_text w),
       FindDelete,
       Log (now w) ''MongoDB to ListMonk import process completed'']"
    and "checkpoint (final w (start c j d)) = (case update_result w of None \<Rightarrow> c | Some t \<Rightarrow> t)"
    and "cookie_jar (final w (start c j d)) = login_jar w"
    and "log_dir (final w (start c j d)) = filter (\<lambda>e. \<not> find_selects e) d"
  using assms
  by (simp_all add: script_defs path_defs command_defs split: option.splits)

subsection \<open>The sample runs and their paths\<close>

lemma nightly_count: "USER_COUNT (EXTRACT_OUTPUT nightly) = ''3''"
  by (simp add: nightly_def count_defs)

lemma nightly_confirmed: "import_confirmed nightly"
  by (simp add: nightly_def path_defs guard_defs count_defs)

lemma stale_csv_confirmed: "import_confirmed stale_csv"
  by (simp add: stale_csv_def nightly_def path_defs guard_defs count_defs)

lemma mongo_down_no_new: "config_ok mongo_down \<and> no_new_users mongo_down"
  by (simp add: mongo_down_def nightly_def path_defs guard_defs count_defs)

lemma quiet_night_no_new: "config_ok quiet_night \<and> no_new_users quiet_night"
  by (simp add: quiet_night_def nightly_def path_defs guard_defs count_defs)

lemma lost_csv_missing: "config_ok lost_csv \<and> csv_missing lost_csv"
  by (simp add: lost_csv_def nightly_def path_defs guard_defs count_defs)

lemma bad_login_failed: "reaches_login bad_login \<and> login_failed bad_login"
  by (simp add: bad_login_def nightly_def path_defs guard_defs count_defs)



lemma wrong_password_confirmed: "import_confirmed wrong_password"
  by (simp add: wrong_password_def nightly_def path_defs guard_defs count_defs)

lemma upload_down_confirmed: "import_confirmed upload_down"
  by (simp add: upload_down_def nightly_def path_defs guard_defs count_defs)

lemma texts_differ:
  "success_text w \<noteq> failed_text w m"
  "success_text w \<noteq> failed_found_text w m"
  "no_new_text w \<noteq> failed_text w m"
  "no_new_text w \<noteq> failed_found_text w m"
  by (simp_all add: success_text_def failed_text_def failed_found_text_def no_new_text_def
      check_mark_def cross_mark_def info_mark_def)




lemma not_confirmed_untouched:
  assumes "\<not> import_confirmed w"
  shows "UpdateTimestamp \<notin> set (trace (final w (start c j d)))
    \<and> checkpoint (final w (start c j d)) = c"
proof (cases rule: run_cases [of w])
  case env
  then show ?thesis by (simp add: final_def path_env_missing)
next
  case vars
  then show ?thesis by (simp add: final_def path_vars_missing)
next
  case csv
  then show ?thesis by (simp add: path_csv_missing)
next
  case no_new
  then show ?thesis by (simp add: path_no_new_users)
next
  case login
  then show ?thesis by (simp add: path_login_failed)
next
  case rejected
  then show ?thesis by (simp add: path_import_failed)
next
  case confirmed
  then show ?thesis using assms by simp
qed

subsection \<open>The checkpoint\<close>

text \<open>
  The update of the last-sync timestamp is run exactly on the path that reaches the
  \<open>else\<close> branch of line 235: configuration present, CSV check passed, a count other than
  zero, login command with exit status 0, import response without the text \<open>error\<close>. On
  every path that one of the script's guards ends earlier (no \<open>.env\<close> file, a missing
  variable, missing CSV file, no new user, failed login, \<open>error\<close> in the import response)
  the update is never run and the checkpoint is exactly the one before the run. After the
  update the checkpoint is what the update stored, and the one before the run if it stored
  nothing; so it is never behind the old one as long as the update stores no earlier
  timestamp.
\<close>

theorem checkpoint_written_only_after_confirmed_import:
  "(UpdateTimestamp \<in> set (trace (final w (start c j d)))) = import_confirmed w
   \<and> checkpoint (final w (start c j d)) =
       (if import_confirmed w then (case update_result w of None \<Rightarrow> c | Some t \<Rightarrow> t) else c)
   \<and> (env_missing w \<or> vars_missing w \<or> csv_missing w \<or> no_new_users w \<or> login_failed w
        \<or> import_failed w \<longrightarrow>
       UpdateTimestamp \<notin> set (trace (final w (start c j d)))
       \<and> checkpoint (final w (start c j d)) = c)
   \<and> ((\<forall>t. update_result w = Some t \<longrightarrow> c \<le> t) \<longrightarrow> c \<le> checkpoint (final w (start c j d)))"
proof (cases "import_confirmed w")
  case True
  then show ?thesis
    by (auto simp add: path_import_confirmed path_defs split: option.splits)
next
  case False
  then show ?thesis
    using not_confirmed_untouched [of w c j d] by simp
qed

theorem checkpoint_written_only_after_confirmed_import_witness:
  "import_confirmed nightly
   \<and> UpdateTimestamp \<in> set (trace (final nightly (start 100 None [])))
   \<and> checkpoint (final nightly (start 100 None [])) = 200
   \<and> no_new_users quiet_night
   \<and> UpdateTimestamp \<notin> set (trace (final quiet_night (start 100 None [])))
   \<and> checkpoint (final quiet_night (start 100 None [])) = 100"
proof -
  have u: "update_result nightly = Some 200"
    by (simp add: nightly_def)
  have q: "no_new_users quiet_night" and nq: "\<not> import_confirmed quiet_night"
    using quiet_night_no_new by (simp_all add: path_defs)
  show ?thesis
    using nightly_confirmed u q nq
      checkpoint_written_only_after_confirmed_import [of nightly 100 None "[]"]
      checkpoint_written_only_after_confirmed_import [of quiet_night 100 None "[]"]
    by simp
qed

text \<open>
  C1. The claim has the checkpoint update never run on a failure path, and names the
  failure of the extraction as one of them. The script stores the exit status of the
  extraction and never reads it. In the run \<open>stale_csv\<close> the extraction ends with status 1
  after it has printed its count, and the CSV file of an earlier night is present: the
  script uploads that file, runs the update and the checkpoint moves from 100 to 200.
\<close>

theorem update_after_failed_extraction:
  "EXTRACT_STATUS stale_csv = 1
   \<and> UpdateTimestamp \<in> set (trace (final stale_csv (start 100 None [])))
   \<and> checkpoint (final stale_csv (start 100 None [])) = 200"
  using stale_csv_confirmed
  by (simp add: path_import_confirmed) (simp add: stale_csv_def nightly_def)

subsection \<open>The import response\<close>



subsection \<open>Failures of the stages\<close>

text \<open>
  C3. The claim wants a run whose extraction fails to end with a non-zero exit code and a
  failure notification. The script stores the exit status of the extraction in
  \<open>EXTRACT_STATUS\<close> and never reads it. In the run \<open>mongo_down\<close> the extraction exits with
  status 1 without printing a count: the script takes the count to be zero, sends the
  notification that there are no new users, logs no error and exits with code 0.
\<close>

theorem failed_extraction_reported_as_no_new_users:
  "EXTRACT_STATUS mongo_down = 1
   \<and> exit_code mongo_down (start 100 None []) = 0
   \<and> notifications (trace (final mongo_down (start 100 None []))) = [no_new_text mongo_down]
   \<and> error_logs (trace (final mongo_down (start 100 None []))) = []
   \<and> checkpoint (final mongo_down (start 100 None [])) = 100"
proof -
  have c: "config_ok mongo_down" and n: "no_new_users mongo_down"
    using mongo_down_no_new by simp_all
  have m: "\<not> csv_missing mongo_down"
    using n by (rule no_new_not_csv_missing)
  have e: "EXTRACT_STATUS mongo_down = 1"
    by (simp add: mongo_down_def nightly_def)
  show ?thesis
    using e by (simp add: path_no_new_users [OF c m n])
qed

text \<open>
  When the login command itself fails (a non-zero exit status, the test of line 205), the
  run is fatal: no upload is attempted, the checkpoint update is not run and the
  checkpoint stays as it was, the single notification is the failure text with the line
  \<open>Users found:\<close> followed by the count of the extraction, and the exit code is 1.
\<close>

theorem failed_login_is_fatal:
  assumes "reaches_login w" and "login_failed w"
  shows "exit_code w (start c j d) = 1
    \<and> filter is_Upload (trace (final w (start c j d))) = []
    \<and> UpdateTimestamp \<notin> set (trace (final w (start c j d)))
    \<and> checkpoint (final w (start c j d)) = c
    \<and> notifications (trace (final w (start c j d))) =
        [cross_mark @ '' <b>ListMonk Import Failed</b>'' @ nl
          @ ''Error: Failed to authenticate with ListMonk'' @ nl
          @ ''Users found: '' @ USER_COUNT (EXTRACT_OUTPUT w) @ nl
          @ ''Time: '' @ now w]"
  using assms
  by (simp add: path_login_failed failed_found_text_def time_line_def)

theorem failed_login_is_fatal_witness:
  "reaches_login bad_login \<and> login_failed bad_login
   \<and> exit_code bad_login (start 100 None []) = 1
   \<and> filter is_Upload (trace (final bad_login (start 100 None []))) = []
   \<and> UpdateTimestamp \<notin> set (trace (final bad_login (start 100 None [])))
   \<and> checkpoint (final bad_login (start 100 None [])) = 100
   \<and> notifications (trace (final bad_login (start 100 None []))) =
       [cross_mark @ '' <b>ListMonk Import Failed</b>'' @ nl
         @ ''Error: Failed to authenticate with ListMonk'' @ nl
         @ ''Users found: 3'' @ nl @ ''Time: 2025-01-08 00:30:00'']"
proof -
  have r: "reaches_login bad_login" and f: "login_failed bad_login"
    using bad_login_failed by simp_all
  have u: "USER_COUNT (EXTRACT_OUTPUT bad_login) = ''3''"
    using nightly_count by (simp add: bad_login_def)
  have t: "now bad_login = ''2025-01-08 00:30:00''"
    by (simp add: bad_login_def nightly_def)
  show ?thesis
    using r f failed_login_is_fatal [OF r f, of 100 None "[]"]
    by (simp add: u t)
qed

text \<open>
  C4. The claim has every run whose authentication fails end without an upload, with the
  checkpoint untouched, a failure notification and exit code 1. The script's only test of
  the login is the exit status of the login command (line 205), and that command is run
  without \<open>-f\<close>: when ListMonk answers and rejects the credentials, the status is 0. In
  the run \<open>wrong_password\<close> the login is rejected and leaves no session cookie: the script
  uploads the file without a cookie, finds no \<open>error\<close> in the answer, runs the checkpoint
  update (100 becomes 200), sends the success notification, logs no error and exits with
  code 0.
\<close>

theorem rejected_login_goes_on_to_upload:
  "login_status wrong_password = 0
   \<and> login_jar wrong_password = None
   \<and> filter is_Upload (trace (final wrong_password (start 100 None []))) =
       [Upload None ''http://localhost:9000'' ''1'']
   \<and> UpdateTimestamp \<in> set (trace (final wrong_password (start 100 None [])))
   \<and> checkpoint (final wrong_password (start 100 None [])) = 200
   \<and> notifications (trace (final wrong_password (start 100 None []))) =
       [success_text wrong_password]
   \<and> error_logs (trace (final wrong_password (start 100 None []))) = []
   \<and> exit_code wrong_password (start 100 None []) = 0"
proof -
  have v: "login_status wrong_password = 0 \<and> login_jar wrong_password = None
      \<and> LISTMONK_URL wrong_password = ''http://localhost:9000''
      \<and> LISTMONK_LIST_ID wrong_password = ''1''
      \<and> update_result wrong_password = Some 200"
    by (simp add: wrong_password_def nightly_def)
  show ?thesis
    using v by (simp add: path_import_confirmed [OF wrong_password_confirmed])
qed

text \<open>
  C5. In every run whose extraction finds zero new records (the configuration being
  present), the script stops after the extraction: the single notification is the one
  that says no new users were found, the exit code is 0, there is neither a login nor an
  upload, the checkpoint update is not run and the checkpoint is unchanged.
\<close>

theorem no_new_users_is_noop_success:
  assumes "config_ok w" and "no_new_users w"
  shows "exit_code w (start c j d) = 0
    \<and> notifications (trace (final w (start c j d))) =
        [info_mark @ '' <b>ListMonk Import Summary</b>'' @ nl
          @ ''No new users found since last import.'' @ nl @ ''Time: '' @ now w]
    \<and> filter is_Login (trace (final w (start c j d))) = []
    \<and> filter is_Upload (trace (final w (start c j d))) = []
    \<and> UpdateTimestamp \<notin> set (trace (final w (start c j d)))
    \<and> checkpoint (final w (start c j d)) = c"
  using assms no_new_not_csv_missing [of w]
  by (simp add: path_no_new_users no_new_text_def time_line_def)

theorem no_new_users_is_noop_success_witness:
  "config_ok quiet_night \<and> no_new_users quiet_night
   \<and> exit_code quiet_night (start 100 None []) = 0
   \<and> filter is_Login (trace (final quiet_night (start 100 None []))) = []
   \<and> filter is_Upload (trace (final quiet_night (start 100 None []))) = []
   \<and> UpdateTimestamp \<notin> set (trace (final quiet_night (start 100 None [])))
   \<and> checkpoint (final quiet_night (start 100 None [])) = 100"
proof -
  have c: "config_ok quiet_night" and n: "no_new_users quiet_night"
    using quiet_night_no_new by simp_all
  show ?thesis
    using c n no_new_users_is_noop_success [OF c n, of 100 None "[]"]
    by simp
qed

text \<open>
  C6, amended. Every failure that the script finds after its start-up checks (missing CSV
  file, failed login, error indicator in the import response) is logged in exactly one
  timestamped error line and reported in exactly one notification. A missing \<open>.env\<close> file or
  a missing Telegram variable is found before the log and the notification are set up: the
  script prints one line without a timestamp to standard output, writes nothing to the log
  file, sends no notification and exits with code 1.
\<close>

theorem failure_paths_log_and_notify:
  "(config_ok w \<and> exit_code w (start c j d) = 1 \<longrightarrow>
      length (notifications (trace (final w (start c j d)))) = 1
      \<and> length (error_logs (trace (final w (start c j d)))) = 1)
   \<and> (\<not> config_ok w \<longrightarrow>
      exit_code w (start c j d) = 1
      \<and> notifications (trace (final w (start c j d))) = []
      \<and> filter is_Log (trace (final w (start c j d))) = []
      \<and> length (filter is_Echo (trace (final w (start c j d)))) = 1
      \<and> log_file (final w (start c j d)) = [])"
proof (cases rule: run_cases [of w])
  case env
  then show ?thesis
    by (simp add: config_ok_def final_def exit_code_def path_env_missing)
next
  case vars
  then show ?thesis
    by (simp add: config_ok_def final_def exit_code_def path_vars_missing)
next
  case csv
  then show ?thesis by (simp add: path_csv_missing)
next
  case no_new
  then show ?thesis by (simp add: path_no_new_users)
next
  case login
  then show ?thesis by (simp add: path_login_failed reaches_login_def)
next
  case rejected
  then show ?thesis by (simp add: path_import_failed path_defs)
next
  case confirmed
  then show ?thesis by (simp add: path_import_confirmed path_defs)
qed

theorem failure_paths_log_and_notify_witness:
  "config_ok lost_csv \<and> exit_code lost_csv (start 100 None []) = 1
   \<and> length (notifications (trace (final lost_csv (start 100 None [])))) = 1
   \<and> length (error_logs (trace (final lost_csv (start 100 None [])))) = 1
   \<and> \<not> config_ok no_env
   \<and> exit_code no_env (start 100 None []) = 1
   \<and> notifications (trace (final no_env (start 100 None []))) = []
   \<and> filter is_Log (trace (final no_env (start 100 None []))) = []"
proof -
  have c: "config_ok lost_csv" and m: "csv_missing lost_csv"
    using lost_csv_missing by simp_all
  have x: "exit_code lost_csv (start 100 None []) = 1"
    using c m by (rule path_csv_missing)
  have e: "\<not> config_ok no_env"
    by (simp add: no_env_def nightly_def config_ok_def env_missing_def)
  show ?thesis
    using c x e
      failure_paths_log_and_notify [of lost_csv 100 None "[]"]
      failure_paths_log_and_notify [of no_env 100 None "[]"]
    by simp
qed

text \<open>
  C6 as stated covers the missing configuration too. In the run \<open>no_env\<close> the \<open>.env\<close> file
  is absent: the run fails with exit code 1, sends no notification and writes no
  timestamped line.
\<close>

theorem missing_env_fails_silently:
  "exit_code no_env (start 100 None []) = 1
   \<and> notifications (trace (final no_env (start 100 None []))) = []
   \<and> filter is_Log (trace (final no_env (start 100 None []))) = []
   \<and> log_file (final no_env (start 100 None [])) = []"
proof -
  have e: "env_missing no_env"
    by (simp add: no_env_def nightly_def env_missing_def)
  show ?thesis
    by (simp add: exit_code_def final_def path_env_missing [OF e])
qed

subsection \<open>Exit codes\<close>

text \<open>
  The exit code is 0 or 1. It is 0 exactly when the run sends the success notification or
  the notification that there are no new users, that is when the script reaches the
  success branch of the import check or takes the count to be zero; it is 1 exactly when
  one of the script's own checks fails (no \<open>.env\<close> file, a missing variable, missing CSV
  file, non-zero exit status of the login command, \<open>error\<close> in the import response). In
  particular, when the extraction reports more than zero users and the processed CSV file
  is absent, the run ends with exit code 1 and the failure notification before any login
  or upload.
\<close>

theorem exit_code_zero_iff_success_or_no_new_users:
  "(exit_code w (start c j d) = 0 \<or> exit_code w (start c j d) = 1)
   \<and> (exit_code w (start c j d) = 0) = (import_confirmed w \<or> (config_ok w \<and> no_new_users w))
   \<and> (exit_code w (start c j d) = 0) =
       (notifications (trace (final w (start c j d))) = [success_text w]
        \<or> notifications (trace (final w (start c j d))) = [no_new_text w])
   \<and> (exit_code w (start c j d) = 1) =
       (env_missing w \<or> vars_missing w \<or> csv_missing w
        \<or> (reaches_login w \<and> (login_failed w \<or> import_failed w)))
   \<and> (config_ok w \<and> csv_missing w \<longrightarrow>
        exit_code w (start c j d) = 1
        \<and> notifications (trace (final w (start c j d))) =
            [failed_text w ''Error: CSV file was not created. Aborting import.'']
        \<and> filter is_Login (trace (final w (start c j d))) = []
        \<and> filter is_Upload (trace (final w (start c j d))) = [])"
proof (cases rule: run_cases [of w])
  case env
  then show ?thesis
    by (simp add: path_defs final_def exit_code_def path_env_missing)
next
  case vars
  then show ?thesis
    by (simp add: path_defs final_def exit_code_def path_vars_missing)
next
  case csv
  then show ?thesis
    using no_new_not_csv_missing [of w]
    by (auto simp add: path_csv_missing path_defs texts_differ [symmetric])
next
  case no_new
  then show ?thesis
    by (simp add: path_no_new_users path_defs)
next
  case login
  then show ?thesis
    by (auto simp add: path_login_failed path_defs texts_differ [symmetric])
next
  case rejected
  then show ?thesis
    by (auto simp add: path_import_failed path_defs texts_differ [symmetric])
next
  case confirmed
  then show ?thesis
    by (auto simp add: path_import_confirmed path_defs)
qed

theorem exit_code_zero_iff_success_or_no_new_users_witness:
  "config_ok lost_csv \<and> csv_missing lost_csv
   \<and> test_gt (USER_COUNT (EXTRACT_OUTPUT lost_csv)) 0 \<and> \<not> csv_file lost_csv
   \<and> exit_code lost_csv (start 100 None []) = 1
   \<and> notifications (trace (final lost_csv (start 100 None []))) =
       [failed_text lost_csv ''Error: CSV file was not created. Aborting import.'']
   \<and> filter is_Login (trace (final lost_csv (start 100 None []))) = []
   \<and> filter is_Upload (trace (final lost_csv (start 100 None []))) = []
   \<and> import_confirmed nightly \<and> exit_code nightly (start 100 None []) = 0"
proof -
  have c: "config_ok lost_csv" and m: "csv_missing lost_csv"
    using lost_csv_missing by simp_all
  have g: "test_gt (USER_COUNT (EXTRACT_OUTPUT lost_csv)) 0 \<and> \<not> csv_file lost_csv"
    using m by (simp add: csv_missing_def)
  show ?thesis
    using c m g nightly_confirmed
      exit_code_zero_iff_success_or_no_new_users [of lost_csv 100 None "[]"]
      exit_code_zero_iff_success_or_no_new_users [of nightly 100 None "[]"]
    by simp
qed

text \<open>
  C7. The claim has exit code 1 for any stage failure. The script tests neither the exit
  status of the upload command nor that of the extraction. In the run \<open>upload_down\<close> the
  upload command ends with status 7 and no answer: the empty answer holds no \<open>error\<close>, so
  the script runs the checkpoint update, sends the success notification and exits with
  code 0. In the run \<open>mongo_down\<close> the extraction ends with status 1 and the exit code is 0
  as well.
\<close>

theorem failed_stages_exit_zero:
  "upload_status upload_down = 7
   \<and> IMPORT_RESPONSE upload_down = []
   \<and> exit_code upload_down (start 100 None []) = 0
   \<and> notifications (trace (final upload_down (start 100 None []))) = [success_text upload_down]
   \<and> UpdateTimestamp \<in> set (trace (final upload_down (start 100 None [])))
   \<and> EXTRACT_STATUS mongo_down = 1
   \<and> exit_code mongo_down (start 100 None []) = 0"
proof -
  have v: "upload_status upload_down = 7 \<and> IMPORT_RESPONSE upload_down = []"
    by (simp add: upload_down_def nightly_def)
  have c: "config_ok mongo_down" and n: "no_new_users mongo_down"
    using mongo_down_no_new by simp_all
  have m: "\<not> csv_missing mongo_down"
    using n by (rule no_new_not_csv_missing)
  have e: "EXTRACT_STATUS mongo_down = 1"
    by (simp add: mongo_down_def nightly_def)
  show ?thesis
    using v e
    by (simp add: path_import_confirmed [OF upload_down_confirmed] path_no_new_users [OF c m n])
qed



subsection \<open>Log files and the session cookie\<close>

text \<open>
  C9. The claim wants the log files older than seven days deleted on each run, whatever
  its outcome. The \<open>find ... -delete\<close> of line 249 stands after the last \<open>exit\<close> of the
  branches, so only a run that imports users reaches it. In the run \<open>quiet_night\<close> (no new
  users, exit code 0) a log file of 38 days is still in the log directory after the run;
  the run \<open>nightly\<close>, which imports users, deletes the same file.
\<close>

theorem old_logs_kept_when_nothing_is_imported:
  "find_selects old_log
   \<and> exit_code quiet_night (start 100 None [old_log]) = 0
   \<and> filter is_FindDelete (trace (final quiet_night (start 100 None [old_log]))) = []
   \<and> log_dir (final quiet_night (start 100 None [old_log])) = [old_log]
   \<and> log_dir (final nightly (start 100 None [old_log])) = []"
proof -
  have c: "config_ok quiet_night" and n: "no_new_users quiet_night"
    using quiet_night_no_new by simp_all
  have m: "\<not> csv_missing quiet_night"
    using n by (rule no_new_not_csv_missing)
  have f: "find_selects old_log"
    by (simp add: find_selects_def name_matches_def old_log_def)
  show ?thesis
    using f
    by (simp add: path_no_new_users [OF c m n] path_import_confirmed [OF nightly_confirmed])
qed

text \<open>
  C10, amended. The session cookie is kept in the file \<open>listmonk_cookies.txt\<close> of the temp
  directory. A run that reaches the login first removes that file and then lets the login
  write it, so the upload sends the cookie of the login of the same run, whatever an
  earlier run left in the file; what the run does never depends on the earlier content.
  The file is not removed when the run ends: after a run that reached the login it holds
  the cookie of that run, and after a run that did not it is as the run found it.
\<close>

theorem session_cookie_comes_from_same_run:
  "filter is_Upload (trace (final w (start c j d))) =
     (if reaches_upload w then [Upload (login_jar w) (LISTMONK_URL w) (LISTMONK_LIST_ID w)]
      else [])
   \<and> cookie_jar (final w (start c j d)) = (if reaches_login w then login_jar w else j)
   \<and> trace (final w (start c j' d)) = trace (final w (start c j d))
   \<and> exit_code w (start c j' d) = exit_code w (start c j d)"
proof (cases rule: run_cases [of w])
  case env
  then show ?thesis
    by (simp add: path_defs final_def exit_code_def path_env_missing)
next
  case vars
  then show ?thesis
    by (simp add: path_defs final_def exit_code_def path_vars_missing)
next
  case csv
  then show ?thesis by (simp add: path_csv_missing path_defs)
next
  case no_new
  then show ?thesis by (simp add: path_no_new_users path_defs)
next
  case login
  then show ?thesis by (simp add: path_login_failed path_defs)
next
  case rejected
  then show ?thesis by (simp add: path_import_failed path_defs)
next
  case confirmed
  then show ?thesis by (simp add: path_import_confirmed path_defs)
qed

theorem session_cookie_comes_from_same_run_witness:
  "reaches_upload nightly
   \<and> filter is_Upload (trace (final nightly (start 100 (Some ''session=old'') []))) =
       [Upload (Some ''session=4f1a'') ''http://localhost:9000'' ''1'']
   \<and> cookie_jar (final quiet_night (start 100 (Some ''session=old'') [])) = Some ''session=old''"
proof -
  have n: "reaches_upload nightly" and l: "reaches_login nightly"
    using nightly_confirmed by (simp_all add: import_confirmed_def reaches_upload_def)
  have q: "\<not> reaches_login quiet_night"
    using quiet_night_no_new by (simp add: reaches_login_def)
  have v: "login_jar nightly = Some ''session=4f1a''
      \<and> LISTMONK_URL nightly = ''http://localhost:9000'' \<and> LISTMONK_LIST_ID nightly = ''1''"
    by (simp add: nightly_def)
  show ?thesis
    using n l q v
      session_cookie_comes_from_same_run [of nightly 100 "Some ''session=old''" "[]"]
      session_cookie_comes_from_same_run [of quiet_night 100 "Some ''session=old''" "[]"]
    by simp
qed

text \<open>
  C10 as stated has the cookie released by the time the run ends. After the run \<open>nightly\<close>,
  which started without a cookie file and ended with exit code 0, the file holds the
  session cookie of that run.
\<close>

theorem session_cookie_left_on_disk:
  "cookie_jar (start 100 None []) = None
   \<and> exit_code nightly (start 100 None []) = 0
   \<and> cookie_jar (final nightly (start 100 None [])) = Some ''session=4f1a''"
proof -
  have v: "login_jar nightly = Some ''session=4f1a''"
    by (simp add: nightly_def)
  show ?thesis
    by (simp add: path_import_confirmed [OF nightly_confirmed] v) (simp add: start_def)
qed

end
